theory Spec2Isabelle
  imports Main
begin

section \<open>Values and errors\<close>

text \<open>
  The identifiers handed to the tracer are typed \<^verbatim>\<open>Optional[str]\<close>: either
  Python's \<^verbatim>\<open>None\<close> or a string.
\<close>

datatype py_value = PyNone | PyStr string

text \<open>Python truthiness of such a value: \<^verbatim>\<open>None\<close> and the empty string are falsy.\<close>

fun truthy :: "py_value \<Rightarrow> bool" where
  "truthy PyNone = False"
| "truthy (PyStr s) = (s \<noteq> [])"

text \<open>The built-in exception raised by the abstract method bodies, with its message.\<close>

datatype py_error = NotImplementedError string

section \<open>The transaction manager\<close>

text \<open>
  Modelled from the spec: the class \<^verbatim>\<open>TransactionManager\<close> and its singleton
  \<^verbatim>\<open>transaction_manager\<close> are imported by \<^verbatim>\<open>transactional_tracer.py\<close> from
  \<^verbatim>\<open>bisslog_core.transactional.transaction_manager\<close>, which is not among the sources.
  The spec describes the collaborator as exposing
  \<^verbatim>\<open>get_main_transaction_id() -> string\<close> and \<^verbatim>\<open>get_transaction_id() -> string\<close>,
  the identifiers of the outer "main" transaction and of the currently active one, and as
  queried, never mutated. Python does not enforce a declared result and the helpers below
  hand on what a getter returns, so the record holds each identifier as the value the
  getter returns, a string or \<^verbatim>\<open>None\<close>, and nothing below assumes which. Each getter
  returns its identifier together with the state it leaves behind.
\<close>

record TransactionManager =
  main_transaction_id :: py_value
  current_transaction_id :: py_value

text \<open>
  Modelled from the spec: \<^verbatim>\<open>get_main_transaction_id()\<close> of the absent class, a query
  returning the identifier of the outer transaction.
\<close>

definition get_main_transaction_id :: "TransactionManager \<Rightarrow> py_value \<times> TransactionManager" where
  "get_main_transaction_id tm = (main_transaction_id tm, tm)"

text \<open>
  Modelled from the spec: \<^verbatim>\<open>get_transaction_id()\<close> of the absent class, a query
  returning the identifier of the currently active transaction.
\<close>

definition get_transaction_id :: "TransactionManager \<Rightarrow> py_value \<times> TransactionManager" where
  "get_transaction_id tm = (current_transaction_id tm, tm)"

section \<open>TransactionalTracer: the resolution helpers\<close>

text \<open>
  \<^verbatim>\<open>_re_args_with_main\<close> and \<^verbatim>\<open>_re_args_with_current\<close> of
  \<^verbatim>\<open>transactional_tracer.py\<close>. The property \<^verbatim>\<open>_transaction_manager\<close> returns the
  module-level singleton, which is the state \<open>tm\<close> threaded through here. The returned
  dict is a map from its two keys to their values.
\<close>

definition re_args_with_main ::
  "TransactionManager \<Rightarrow> py_value \<Rightarrow> py_value \<Rightarrow> (string \<rightharpoonup> py_value) \<times> TransactionManager" where
  "re_args_with_main tm transaction_id checkpoint_id =
     (let (transaction_id1, tm1) =
            (if transaction_id = PyNone
             then get_main_transaction_id tm
             else (transaction_id, tm));
          checkpoint_id1 =
            (if checkpoint_id = PyNone \<or> \<not> truthy checkpoint_id
             then PyStr ''''
             else checkpoint_id)
      in ([''transaction_id'' \<mapsto> transaction_id1, ''checkpoint_id'' \<mapsto> checkpoint_id1], tm1))"

definition re_args_with_current ::
  "TransactionManager \<Rightarrow> py_value \<Rightarrow> py_value \<Rightarrow> (string \<rightharpoonup> py_value) \<times> TransactionManager" where
  "re_args_with_current tm transaction_id checkpoint_id =
     (let (transaction_id1, tm1) =
            (if transaction_id = PyNone
             then get_transaction_id tm
             else (transaction_id, tm));
          checkpoint_id1 =
            (if checkpoint_id = PyNone \<or> \<not> truthy checkpoint_id
             then PyStr ''''
             else checkpoint_id)
      in ([''transaction_id'' \<mapsto> transaction_id1, ''checkpoint_id'' \<mapsto> checkpoint_id1], tm1))"

section \<open>The abstract operations\<close>

text \<open>
  The bodies of the abstract methods of \<^verbatim>\<open>ServiceTracer\<close> (\<^verbatim>\<open>service_tracer.py\<close>) and
  of \<^verbatim>\<open>TransactionalTracer\<close> (\<^verbatim>\<open>transactional_tracer.py\<close>), as a subclass reaches them
  through \<^verbatim>\<open>super()\<close>. The payload and the values of \<^verbatim>\<open>extra\<close> and \<^verbatim>\<open>kwargs\<close> are
  opaque objects of type \<open>'o\<close>; \<^verbatim>\<open>*args\<close> is a list, \<^verbatim>\<open>**kwargs\<close> a map,
  \<^verbatim>\<open>extra\<close> and \<^verbatim>\<open>error\<close> default to \<^verbatim>\<open>None\<close>. A raise is \<open>Inl\<close>, a normal return
  \<open>Inr\<close>.
\<close>

definition ServiceTracer_info ::
  "'o \<Rightarrow> 'o list \<Rightarrow> py_value \<Rightarrow> (string \<rightharpoonup> 'o) option \<Rightarrow> (string \<rightharpoonup> 'o)
     \<Rightarrow> py_error + unit" where
  "ServiceTracer_info payload args checkpoint_id extra kwargs =
     Inl (NotImplementedError ''TracingManager must implement method info'')"

definition ServiceTracer_debug ::
  "'o \<Rightarrow> 'o list \<Rightarrow> py_value \<Rightarrow> (string \<rightharpoonup> 'o) option \<Rightarrow> (string \<rightharpoonup> 'o)
     \<Rightarrow> py_error + unit" where
  "ServiceTracer_debug payload args checkpoint_id extra kwargs =
     Inl (NotImplementedError ''TracingManager must implement method debug'')"

definition ServiceTracer_warning ::
  "'o \<Rightarrow> 'o list \<Rightarrow> py_value \<Rightarrow> (string \<rightharpoonup> 'o) option \<Rightarrow> (string \<rightharpoonup> 'o)
     \<Rightarrow> py_error + unit" where
  "ServiceTracer_warning payload args checkpoint_id extra kwargs =
     Inl (NotImplementedError ''TracingManager must implement method warning'')"

definition ServiceTracer_error ::
  "'o \<Rightarrow> 'o list \<Rightarrow> py_value \<Rightarrow> (string \<rightharpoonup> 'o) option \<Rightarrow> (string \<rightharpoonup> 'o)
     \<Rightarrow> py_error + unit" where
  "ServiceTracer_error payload args checkpoint_id extra kwargs =
     Inl (NotImplementedError ''TracingManager must implement method error'')"

definition ServiceTracer_critical ::
  "'o \<Rightarrow> 'o list \<Rightarrow> py_value \<Rightarrow> (string \<rightharpoonup> 'o) option \<Rightarrow> (string \<rightharpoonup> 'o)
     \<Rightarrow> py_error + unit" where
  "ServiceTracer_critical payload args checkpoint_id extra kwargs =
     Inl (NotImplementedError ''TracingManager must implement method critical'')"

definition TransactionalTracer_func_error ::
  "'o \<Rightarrow> 'o list \<Rightarrow> py_value \<Rightarrow> py_value \<Rightarrow> (string \<rightharpoonup> 'o) option
     \<Rightarrow> (string \<rightharpoonup> 'o) \<Rightarrow> py_error + unit" where
  "TransactionalTracer_func_error payload args transaction_id checkpoint_id extra kwargs =
     Inl (NotImplementedError ''TracingManager must implement method func_error'')"

definition TransactionalTracer_tech_error ::
  "'o \<Rightarrow> 'o list \<Rightarrow> py_value \<Rightarrow> py_value \<Rightarrow> 'e option \<Rightarrow> (string \<rightharpoonup> 'o) option
     \<Rightarrow> (string \<rightharpoonup> 'o) \<Rightarrow> py_error + unit" where
  "TransactionalTracer_tech_error payload args transaction_id checkpoint_id err extra kwargs =
     Inl (NotImplementedError ''TracingManager must implement method tech_error'')"

definition TransactionalTracer_report_start_external ::
  "'o \<Rightarrow> 'o list \<Rightarrow> py_value \<Rightarrow> py_value \<Rightarrow> (string \<rightharpoonup> 'o) option
     \<Rightarrow> (string \<rightharpoonup> 'o) \<Rightarrow> py_error + unit" where
  "TransactionalTracer_report_start_external payload args transaction_id checkpoint_id extra kwargs =
     Inl (NotImplementedError ''TracingManager must implement method report_start_external'')"

definition TransactionalTracer_report_end_external ::
  "'o \<Rightarrow> 'o list \<Rightarrow> py_value \<Rightarrow> py_value \<Rightarrow> (string \<rightharpoonup> 'o) option
     \<Rightarrow> (string \<rightharpoonup> 'o) \<Rightarrow> py_error + unit" where
  "TransactionalTracer_report_end_external payload args transaction_id checkpoint_id extra kwargs =
     Inl (NotImplementedError ''TracingManager must implement method report_end_external'')"

definition TransactionalTracer_info ::
  "'o \<Rightarrow> 'o list \<Rightarrow> py_value \<Rightarrow> py_value \<Rightarrow> (string \<rightharpoonup> 'o) option
     \<Rightarrow> (string \<rightharpoonup> 'o) \<Rightarrow> py_error + unit" where
  "TransactionalTracer_info payload args transaction_id checkpoint_id extra kwargs =
     Inl (NotImplementedError ''TracingManager must implement method info'')"

definition TransactionalTracer_debug ::
  "'o \<Rightarrow> 'o list \<Rightarrow> py_value \<Rightarrow> py_value \<Rightarrow> (string \<rightharpoonup> 'o) option
     \<Rightarrow> (string \<rightharpoonup> 'o) \<Rightarrow> py_error + unit" where
  "TransactionalTracer_debug payload args transaction_id checkpoint_id extra kwargs =
     Inl (NotImplementedError ''TracingManager must implement method debug'')"

definition TransactionalTracer_warning ::
  "'o \<Rightarrow> 'o list \<Rightarrow> py_value \<Rightarrow> py_value \<Rightarrow> (string \<rightharpoonup> 'o) option
     \<Rightarrow> (string \<rightharpoonup> 'o) \<Rightarrow> py_error + unit" where
  "TransactionalTracer_warning payload args transaction_id checkpoint_id extra kwargs =
     Inl (NotImplementedError ''TracingManager must implement method warning'')"

definition TransactionalTracer_error ::
  "'o \<Rightarrow> 'o list \<Rightarrow> py_value \<Rightarrow> py_value \<Rightarrow> (string \<rightharpoonup> 'o) option
     \<Rightarrow> (string \<rightharpoonup> 'o) \<Rightarrow> py_error + unit" where
  "TransactionalTracer_error payload args transaction_id checkpoint_id extra kwargs =
     Inl (NotImplementedError ''TracingManager must implement method error'')"

definition TransactionalTracer_critical ::
  "'o \<Rightarrow> 'o list \<Rightarrow> py_value \<Rightarrow> py_value \<Rightarrow> (string \<rightharpoonup> 'o) option
     \<Rightarrow> (string \<rightharpoonup> 'o) \<Rightarrow> py_error + unit" where
  "TransactionalTracer_critical payload args transaction_id checkpoint_id extra kwargs =
     Inl (NotImplementedError ''TracingManager must implement method critical'')"

section \<open>The exception taxonomy\<close>

text \<open>
  Modelled from the spec: the modules \<^verbatim>\<open>bisslog.exceptions.domain_exception\<close> and
  \<^verbatim>\<open>bisslog.exceptions.external_interactions_errors\<close> are not among the sources; only
  their tests are. The classes and their single direct bases follow the tree of the
  spec's system overview: \<^verbatim>\<open>DomainException\<close>, a subtype of the generic exception type,
  with \<^verbatim>\<open>NotFound\<close> and \<^verbatim>\<open>NotAllowed\<close>; and \<^verbatim>\<open>ExternalInteractionError\<close>, for which the
  spec names no base (it is the root of its family), branching as listed there, with
  \<^verbatim>\<open>InternalErrorExtException\<close> read as a child of \<^verbatim>\<open>ErrorExtException\<close>. Every
  \<^verbatim>\<open>issubclass\<close> assertion of the two test files holds in this tree.
\<close>

datatype py_class =
    Exception
  | DomainException
  | NotFound
  | NotAllowed
  | ExternalInteractionError
  | WarningExtException
  | ErrorExtException
  | InterfaceExtException
  | ConfigurationExtException
  | ExternalDependencyErrorExtException
  | DataErrorExtException
  | OperationalErrorExtException
  | ConnectionExtException
  | TimeoutExtException
  | AuthenticationExtException
  | AuthorizationExtException
  | DeliveryExtException
  | IntegrityErrorExtException
  | ProgrammingErrorExtException
  | NotSupportedErrorExtException
  | InvalidDataExtException
  | InternalErrorExtException
  | ProcessingExtException

fun base :: "py_class \<Rightarrow> py_class option" where
  "base Exception = None"
| "base DomainException = Some Exception"
| "base NotFound = Some DomainException"
| "base NotAllowed = Some DomainException"
| "base ExternalInteractionError = None"
| "base WarningExtException = Some ExternalInteractionError"
| "base ErrorExtException = Some ExternalInteractionError"
| "base InterfaceExtException = Some ErrorExtException"
| "base ConfigurationExtException = Some InterfaceExtException"
| "base ExternalDependencyErrorExtException = Some ErrorExtException"
| "base DataErrorExtException = Some ExternalDependencyErrorExtException"
| "base OperationalErrorExtException = Some ExternalDependencyErrorExtException"
| "base ConnectionExtException = Some OperationalErrorExtException"
| "base TimeoutExtException = Some OperationalErrorExtException"
| "base AuthenticationExtException = Some OperationalErrorExtException"
| "base AuthorizationExtException = Some OperationalErrorExtException"
| "base DeliveryExtException = Some OperationalErrorExtException"
| "base IntegrityErrorExtException = Some ExternalDependencyErrorExtException"
| "base ProgrammingErrorExtException = Some ExternalDependencyErrorExtException"
| "base NotSupportedErrorExtException = Some ExternalDependencyErrorExtException"
| "base InvalidDataExtException = Some ExternalDependencyErrorExtException"
| "base InternalErrorExtException = Some ErrorExtException"
| "base ProcessingExtException = Some InternalErrorExtException"

text \<open>The number of proper ancestors of a class; the measure under which \<open>mro\<close> terminates.\<close>

fun depth :: "py_class \<Rightarrow> nat" where
  "depth Exception = 0"
| "depth DomainException = 1"
| "depth NotFound = 2"
| "depth NotAllowed = 2"
| "depth ExternalInteractionError = 0"
| "depth WarningExtException = 1"
| "depth ErrorExtException = 1"
| "depth InterfaceExtException = 2"
| "depth ConfigurationExtException = 3"
| "depth ExternalDependencyErrorExtException = 2"
| "depth DataErrorExtException = 3"
| "depth OperationalErrorExtException = 3"
| "depth ConnectionExtException = 4"
| "depth TimeoutExtException = 4"
| "depth AuthenticationExtException = 4"
| "depth AuthorizationExtException = 4"
| "depth DeliveryExtException = 4"
| "depth IntegrityErrorExtException = 3"
| "depth ProgrammingErrorExtException = 3"
| "depth NotSupportedErrorExtException = 3"
| "depth InvalidDataExtException = 3"
| "depth InternalErrorExtException = 2"
| "depth ProcessingExtException = 3"

text \<open>
  The method resolution order under single inheritance: the class, then its base, and so
  on up to a class without base.
\<close>

function mro :: "py_class \<Rightarrow> py_class list" where
  "mro c = (case base c of None \<Rightarrow> [c] | Some b \<Rightarrow> c # mro b)"
  by pat_completeness auto
termination
proof (relation "measure depth")
  show "wf (measure depth)" by simp
next
  fix c b
  assume "base c = Some b"
  then show "(b, c) \<in> measure depth" by (cases c) auto
qed

text \<open>Python's \<^verbatim>\<open>issubclass(c, d)\<close>: \<open>d\<close> occurs in the resolution order of \<open>c\<close>.\<close>

definition issubclass :: "py_class \<Rightarrow> py_class \<Rightarrow> bool" where
  "issubclass c d = (d \<in> set (mro c))"

text \<open>The classes of the external-interaction family, as imported by its test file.\<close>

definition ext_family :: "py_class list" where
  "ext_family =
     [ExternalInteractionError,
      WarningExtException,
      ErrorExtException,
      InterfaceExtException,
      ConfigurationExtException,
      ExternalDependencyErrorExtException,
      DataErrorExtException,
      OperationalErrorExtException,
      ConnectionExtException,
      TimeoutExtException,
      AuthenticationExtException,
      AuthorizationExtException,
      DeliveryExtException,
      IntegrityErrorExtException,
      ProgrammingErrorExtException,
      NotSupportedErrorExtException,
      InvalidDataExtException,
      InternalErrorExtException,
      ProcessingExtException]"

text \<open>
  Modelled from the spec: an exception object carries its class and a human-readable
  message; a domain exception carries a key name besides.
\<close>

record exception_obj =
  cls :: py_class
  message :: string

record domain_exception_obj = exception_obj +
  keyname :: string

text \<open>
  Modelled from the spec: constructing \<^verbatim>\<open>DomainException(keyname, message)\<close>,
  \<^verbatim>\<open>NotFound(keyname, message)\<close> or \<^verbatim>\<open>NotAllowed(keyname, message)\<close> stores the two fields
  and does nothing else. A constructor that failed would return \<open>Inl\<close>.
\<close>

definition new_DomainException :: "string \<Rightarrow> string \<Rightarrow> py_error + domain_exception_obj" where
  "new_DomainException k m = Inr \<lparr>cls = DomainException, message = m, keyname = k\<rparr>"

definition new_NotFound :: "string \<Rightarrow> string \<Rightarrow> py_error + domain_exception_obj" where
  "new_NotFound k m = Inr \<lparr>cls = NotFound, message = m, keyname = k\<rparr>"

definition new_NotAllowed :: "string \<Rightarrow> string \<Rightarrow> py_error + domain_exception_obj" where
  "new_NotAllowed k m = Inr \<lparr>cls = NotAllowed, message = m, keyname = k\<rparr>"

text \<open>
  Modelled from the spec: an exception of the external-interaction family is constructed
  from its message alone, as the tests do.
\<close>

definition new_ext_exception :: "py_class \<Rightarrow> string \<Rightarrow> py_error + exception_obj" where
  "new_ext_exception c m = Inr \<lparr>cls = c, message = m\<rparr>"

text \<open>Python's \<^verbatim>\<open>isinstance(e, d)\<close>.\<close>

definition isinstance :: "'x exception_obj_scheme \<Rightarrow> py_class \<Rightarrow> bool" where
  "isinstance e d = issubclass (cls e) d"

text \<open>
  \<^verbatim>\<open>raise e\<close>, and a block run under a handler for class \<open>d\<close> (\<^verbatim>\<open>except d\<close>, or
  \<^verbatim>\<open>pytest.raises(d)\<close> in the tests): the handler takes the exceptions that are instances
  of \<open>d\<close> and lets every other one pass.
\<close>

datatype ('e, 'a) outcome = Returned 'a | Caught 'e | Propagated 'e

definition raise :: "'e \<Rightarrow> 'e + 'a" where
  "raise e = Inl e"

definition handle ::
  "py_class \<Rightarrow> 'x exception_obj_scheme + 'a \<Rightarrow> ('x exception_obj_scheme, 'a) outcome" where
  "handle d body =
     (case body of
        Inr v \<Rightarrow> Returned v
      | Inl e \<Rightarrow> if isinstance e d then Caught e else Propagated e)"

section \<open>Properties of the resolution helpers\<close>

lemma re_args_with_main_eq:
  "re_args_with_main tm transaction_id checkpoint_id =
     ([''transaction_id'' \<mapsto>
         (if transaction_id = PyNone then main_transaction_id tm else transaction_id),
       ''checkpoint_id'' \<mapsto>
         (if checkpoint_id = PyNone \<or> checkpoint_id = PyStr '''' then PyStr '''' else checkpoint_id)],
      tm)"
  by (cases checkpoint_id) (simp_all add: re_args_with_main_def get_main_transaction_id_def)

lemma re_args_with_current_eq:
  "re_args_with_current tm transaction_id checkpoint_id =
     ([''transaction_id'' \<mapsto>
         (if transaction_id = PyNone then current_transaction_id tm else transaction_id),
       ''checkpoint_id'' \<mapsto>
         (if checkpoint_id = PyNone \<or> checkpoint_id = PyStr '''' then PyStr '''' else checkpoint_id)],
      tm)"
  by (cases checkpoint_id) (simp_all add: re_args_with_current_def get_transaction_id_def)

lemma dict_eq_iff:
  "([''transaction_id'' \<mapsto> t, ''checkpoint_id'' \<mapsto> c] =
    [''transaction_id'' \<mapsto> t', ''checkpoint_id'' \<mapsto> c']) \<longleftrightarrow> t = t' \<and> c = c'"
proof
  assume eq: "[''transaction_id'' \<mapsto> t, ''checkpoint_id'' \<mapsto> c] =
              [''transaction_id'' \<mapsto> t', ''checkpoint_id'' \<mapsto> c']"
  from fun_cong [OF eq, of "''transaction_id''"] have "t = t'" by simp
  moreover from fun_cong [OF eq, of "''checkpoint_id''"] have "c = c'" by simp
  ultimately show "t = t' \<and> c = c'" by simp
next
  assume "t = t' \<and> c = c'"
  then show "[''transaction_id'' \<mapsto> t, ''checkpoint_id'' \<mapsto> c] =
             [''transaction_id'' \<mapsto> t', ''checkpoint_id'' \<mapsto> c']" by simp
qed

text \<open>
  C1. With \<^verbatim>\<open>transaction_id=None\<close> and \<^verbatim>\<open>checkpoint_id=None\<close>,
  \<^verbatim>\<open>_re_args_with_main\<close> returns the dict holding the manager's main transaction id and
  the empty string as checkpoint, \<^verbatim>\<open>_re_args_with_current\<close> returns the dict holding
  the manager's current transaction id and the empty string; whenever the main and the
  current id differ, the two results differ.
\<close>

theorem re_args_defaults:
  "fst (re_args_with_main tm PyNone PyNone) =
     [''transaction_id'' \<mapsto> fst (get_main_transaction_id tm),
      ''checkpoint_id'' \<mapsto> PyStr '''']
   \<and> fst (re_args_with_current tm PyNone PyNone) =
     [''transaction_id'' \<mapsto> fst (get_transaction_id tm),
      ''checkpoint_id'' \<mapsto> PyStr '''']
   \<and> (fst (get_main_transaction_id tm) \<noteq> fst (get_transaction_id tm) \<longrightarrow>
        fst (re_args_with_main tm PyNone PyNone) \<noteq> fst (re_args_with_current tm PyNone PyNone))"
  unfolding re_args_with_main_eq re_args_with_current_eq
  by (simp add: get_main_transaction_id_def get_transaction_id_def dict_eq_iff
           del: fun_upd_apply)

theorem re_args_defaults_witness:
  "fst (get_main_transaction_id \<lparr>main_transaction_id = PyStr ''tx-main'', current_transaction_id = PyStr ''tx-sub''\<rparr>)
     \<noteq> fst (get_transaction_id \<lparr>main_transaction_id = PyStr ''tx-main'', current_transaction_id = PyStr ''tx-sub''\<rparr>)
   \<and> fst (re_args_with_main \<lparr>main_transaction_id = PyStr ''tx-main'', current_transaction_id = PyStr ''tx-sub''\<rparr> PyNone PyNone)
     \<noteq> fst (re_args_with_current \<lparr>main_transaction_id = PyStr ''tx-main'', current_transaction_id = PyStr ''tx-sub''\<rparr> PyNone PyNone)"
proof -
  have differ:
    "fst (get_main_transaction_id \<lparr>main_transaction_id = PyStr ''tx-main'', current_transaction_id = PyStr ''tx-sub''\<rparr>)
       \<noteq> fst (get_transaction_id \<lparr>main_transaction_id = PyStr ''tx-main'', current_transaction_id = PyStr ''tx-sub''\<rparr>)"
    by (simp add: get_main_transaction_id_def get_transaction_id_def)
  with re_args_defaults
    [of "\<lparr>main_transaction_id = PyStr ''tx-main'', current_transaction_id = PyStr ''tx-sub''\<rparr>"]
  show ?thesis by blast
qed





text \<open>
  C4. For every \<^verbatim>\<open>transaction_id\<close>, both helpers called with the empty string as
  \<^verbatim>\<open>checkpoint_id\<close> return the empty string under \<^verbatim>\<open>"checkpoint_id"\<close>, and their result
  is the one for \<^verbatim>\<open>checkpoint_id=None\<close>: an already normalized checkpoint is left as it is.
\<close>

theorem re_args_empty_checkpoint:
  "fst (re_args_with_main tm transaction_id (PyStr '''')) ''checkpoint_id'' = Some (PyStr '''')
   \<and> re_args_with_main tm transaction_id (PyStr '''') = re_args_with_main tm transaction_id PyNone
   \<and> fst (re_args_with_current tm transaction_id (PyStr '''')) ''checkpoint_id'' = Some (PyStr '''')
   \<and> re_args_with_current tm transaction_id (PyStr '''') = re_args_with_current tm transaction_id PyNone"
  unfolding re_args_with_main_eq re_args_with_current_eq
  by simp

text \<open>
  C5. Neither helper changes the transaction manager: after any call of
  \<^verbatim>\<open>_re_args_with_main\<close> or \<^verbatim>\<open>_re_args_with_current\<close> the manager is in the state it was in
  before.
\<close>

theorem re_args_manager_unchanged:
  "snd (re_args_with_main tm transaction_id checkpoint_id) = tm
   \<and> snd (re_args_with_current tm transaction_id checkpoint_id) = tm"
  unfolding re_args_with_main_eq re_args_with_current_eq
  by simp

text \<open>
  C6. An empty string given as \<^verbatim>\<open>transaction_id\<close> is kept: for every \<^verbatim>\<open>checkpoint_id\<close>
  both helpers return the empty string under \<^verbatim>\<open>"transaction_id"\<close>, and the same dict
  whatever the state of the manager. Every string given is kept likewise; only \<^verbatim>\<open>None\<close> is
  replaced by the manager's id. For \<^verbatim>\<open>checkpoint_id\<close>, \<^verbatim>\<open>None\<close> and the empty string both
  give the empty string.
\<close>

theorem re_args_empty_transaction_id:
  "fst (re_args_with_main tm (PyStr '''') checkpoint_id) ''transaction_id'' = Some (PyStr '''')
   \<and> fst (re_args_with_current tm (PyStr '''') checkpoint_id) ''transaction_id'' = Some (PyStr '''')
   \<and> fst (re_args_with_main tm (PyStr '''') checkpoint_id)
       = fst (re_args_with_main tm' (PyStr '''') checkpoint_id)
   \<and> fst (re_args_with_current tm (PyStr '''') checkpoint_id)
       = fst (re_args_with_current tm' (PyStr '''') checkpoint_id)
   \<and> fst (re_args_with_main tm (PyStr s) checkpoint_id) ''transaction_id'' = Some (PyStr s)
   \<and> fst (re_args_with_current tm (PyStr s) checkpoint_id) ''transaction_id'' = Some (PyStr s)
   \<and> fst (re_args_with_main tm PyNone checkpoint_id) ''transaction_id''
       = Some (fst (get_main_transaction_id tm))
   \<and> fst (re_args_with_current tm PyNone checkpoint_id) ''transaction_id''
       = Some (fst (get_transaction_id tm))
   \<and> fst (re_args_with_main tm transaction_id PyNone) ''checkpoint_id'' = Some (PyStr '''')
   \<and> fst (re_args_with_main tm transaction_id (PyStr '''')) ''checkpoint_id'' = Some (PyStr '''')
   \<and> fst (re_args_with_current tm transaction_id PyNone) ''checkpoint_id'' = Some (PyStr '''')
   \<and> fst (re_args_with_current tm transaction_id (PyStr '''')) ''checkpoint_id'' = Some (PyStr '''')"
  unfolding re_args_with_main_eq re_args_with_current_eq
  by (simp add: get_main_transaction_id_def get_transaction_id_def)

text \<open>
  C7. With a \<^verbatim>\<open>transaction_id\<close> other than \<^verbatim>\<open>None\<close> the two helpers agree and do not
  depend on the transaction manager: for every \<^verbatim>\<open>checkpoint_id\<close> and any two states of the
  manager, each helper in each state returns the dict of the given id and the normalized
  checkpoint.
\<close>

theorem re_args_explicit_transaction_id:
  assumes "transaction_id \<noteq> PyNone"
  shows "fst (re_args_with_main tm1 transaction_id checkpoint_id) =
           [''transaction_id'' \<mapsto> transaction_id,
            ''checkpoint_id'' \<mapsto>
              (if checkpoint_id = PyNone \<or> checkpoint_id = PyStr '''' then PyStr '''' else checkpoint_id)]
         \<and> fst (re_args_with_current tm1 transaction_id checkpoint_id)
             = fst (re_args_with_main tm1 transaction_id checkpoint_id)
         \<and> fst (re_args_with_main tm2 transaction_id checkpoint_id)
             = fst (re_args_with_main tm1 transaction_id checkpoint_id)
         \<and> fst (re_args_with_current tm2 transaction_id checkpoint_id)
             = fst (re_args_with_main tm1 transaction_id checkpoint_id)"
  using assms unfolding re_args_with_main_eq re_args_with_current_eq
  by simp

theorem re_args_explicit_transaction_id_witness:
  "PyStr ''tx-7'' \<noteq> PyNone
   \<and> fst (re_args_with_main \<lparr>main_transaction_id = PyStr ''tx-main'', current_transaction_id = PyStr ''tx-sub''\<rparr>
            (PyStr ''tx-7'') (PyStr ''step-2''))
       = [''transaction_id'' \<mapsto> PyStr ''tx-7'', ''checkpoint_id'' \<mapsto> PyStr ''step-2'']
   \<and> fst (re_args_with_current \<lparr>main_transaction_id = PyStr ''other'', current_transaction_id = PyStr ''nested''\<rparr>
            (PyStr ''tx-7'') (PyStr ''step-2''))
       = fst (re_args_with_main \<lparr>main_transaction_id = PyStr ''tx-main'', current_transaction_id = PyStr ''tx-sub''\<rparr>
            (PyStr ''tx-7'') (PyStr ''step-2''))"
proof -
  have given: "PyStr ''tx-7'' \<noteq> PyNone" by simp
  from re_args_explicit_transaction_id
    [OF given,
     of "\<lparr>main_transaction_id = PyStr ''tx-main'', current_transaction_id = PyStr ''tx-sub''\<rparr>"
        "PyStr ''step-2''"
        "\<lparr>main_transaction_id = PyStr ''other'', current_transaction_id = PyStr ''nested''\<rparr>"]
  show ?thesis by simp
qed

section \<open>Properties of the abstract operations\<close>

text \<open>
  C3. The body of every abstract operation of \<^verbatim>\<open>ServiceTracer\<close> (\<^verbatim>\<open>info\<close>, \<^verbatim>\<open>debug\<close>,
  \<^verbatim>\<open>warning\<close>, \<^verbatim>\<open>error\<close>, \<^verbatim>\<open>critical\<close>) and of \<^verbatim>\<open>TransactionalTracer\<close> (these five and
  \<^verbatim>\<open>func_error\<close>, \<^verbatim>\<open>tech_error\<close>, \<^verbatim>\<open>report_start_external\<close>, \<^verbatim>\<open>report_end_external\<close>),
  run on any arguments, raises \<^verbatim>\<open>NotImplementedError\<close>; it never returns normally.
\<close>

theorem abstract_operations_raise:
  "ServiceTracer_info payload args checkpoint_id extra kwargs
     = Inl (NotImplementedError ''TracingManager must implement method info'')
   \<and> ServiceTracer_debug payload args checkpoint_id extra kwargs
     = Inl (NotImplementedError ''TracingManager must implement method debug'')
   \<and> ServiceTracer_warning payload args checkpoint_id extra kwargs
     = Inl (NotImplementedError ''TracingManager must implement method warning'')
   \<and> ServiceTracer_error payload args checkpoint_id extra kwargs
     = Inl (NotImplementedError ''TracingManager must implement method error'')
   \<and> ServiceTracer_critical payload args checkpoint_id extra kwargs
     = Inl (NotImplementedError ''TracingManager must implement method critical'')
   \<and> TransactionalTracer_func_error payload args transaction_id checkpoint_id extra kwargs
     = Inl (NotImplementedError ''TracingManager must implement method func_error'')
   \<and> TransactionalTracer_tech_error payload args transaction_id checkpoint_id err extra kwargs
     = Inl (NotImplementedError ''TracingManager must implement method tech_error'')
   \<and> TransactionalTracer_report_start_external payload args transaction_id checkpoint_id extra kwargs
     = Inl (NotImplementedError ''TracingManager must implement method report_start_external'')
   \<and> TransactionalTracer_report_end_external payload args transaction_id checkpoint_id extra kwargs
     = Inl (NotImplementedError ''TracingManager must implement method report_end_external'')
   \<and> TransactionalTracer_info payload args transaction_id checkpoint_id extra kwargs
     = Inl (NotImplementedError ''TracingManager must implement method info'')
   \<and> TransactionalTracer_debug payload args transaction_id checkpoint_id extra kwargs
     = Inl (NotImplementedError ''TracingManager must implement method debug'')
   \<and> TransactionalTracer_warning payload args transaction_id checkpoint_id extra kwargs
     = Inl (NotImplementedError ''TracingManager must implement method warning'')
   \<and> TransactionalTracer_error payload args transaction_id checkpoint_id extra kwargs
     = Inl (NotImplementedError ''TracingManager must implement method error'')
   \<and> TransactionalTracer_critical payload args transaction_id checkpoint_id extra kwargs
     = Inl (NotImplementedError ''TracingManager must implement method critical'')"
  unfolding ServiceTracer_info_def ServiceTracer_debug_def ServiceTracer_warning_def
    ServiceTracer_error_def ServiceTracer_critical_def
    TransactionalTracer_func_error_def TransactionalTracer_tech_error_def
    TransactionalTracer_report_start_external_def TransactionalTracer_report_end_external_def
    TransactionalTracer_info_def TransactionalTracer_debug_def TransactionalTracer_warning_def
    TransactionalTracer_error_def TransactionalTracer_critical_def
  by (intro conjI refl)

section \<open>Properties of the exception taxonomy\<close>

text \<open>The \<^verbatim>\<open>issubclass\<close> assertions of \<^verbatim>\<open>test_domain_exceptions.py\<close>.\<close>

lemma test_domain_exception_hierarchy:
  "issubclass NotFound DomainException
   \<and> issubclass NotAllowed DomainException
   \<and> issubclass DomainException Exception"
  by (simp add: issubclass_def)

text \<open>The \<^verbatim>\<open>issubclass\<close> assertions of \<^verbatim>\<open>test_external_interaction_errors.py\<close>.\<close>

lemma test_external_exception_hierarchy:
  "issubclass WarningExtException ExternalInteractionError
   \<and> issubclass AuthenticationExtException OperationalErrorExtException
   \<and> issubclass NotSupportedErrorExtException ExternalDependencyErrorExtException
   \<and> issubclass TimeoutExtException OperationalErrorExtException
   \<and> issubclass ErrorExtException ExternalInteractionError
   \<and> issubclass InterfaceExtException ErrorExtException
   \<and> issubclass ExternalDependencyErrorExtException ErrorExtException
   \<and> issubclass DataErrorExtException ExternalDependencyErrorExtException
   \<and> issubclass OperationalErrorExtException ExternalDependencyErrorExtException
   \<and> issubclass ConnectionExtException OperationalErrorExtException
   \<and> issubclass AuthorizationExtException OperationalErrorExtException
   \<and> issubclass IntegrityErrorExtException ExternalDependencyErrorExtException
   \<and> issubclass ProgrammingErrorExtException ExternalDependencyErrorExtException
   \<and> issubclass ConfigurationExtException InterfaceExtException
   \<and> issubclass InvalidDataExtException ExternalDependencyErrorExtException
   \<and> issubclass ProcessingExtException InternalErrorExtException
   \<and> issubclass DeliveryExtException OperationalErrorExtException"
  by (simp add: issubclass_def)

lemma handle_raise_instance:
  "isinstance e d \<Longrightarrow> handle d (raise e) = Caught e"
  by (simp add: handle_def raise_def)

text \<open>
  C8. For all strings \<open>k\<close> and \<open>m\<close>, constructing \<^verbatim>\<open>DomainException(k, m)\<close>,
  \<^verbatim>\<open>NotFound(k, m)\<close> or \<^verbatim>\<open>NotAllowed(k, m)\<close> does not fail, and gives an object of that
  class whose \<^verbatim>\<open>keyname\<close> is \<open>k\<close> and whose \<^verbatim>\<open>message\<close> is \<open>m\<close>.
\<close>

theorem domain_exception_fields:
  "(\<exists>e. new_DomainException k m = Inr e
        \<and> cls e = DomainException \<and> keyname e = k \<and> message e = m)
   \<and> (\<exists>e. new_NotFound k m = Inr e
        \<and> cls e = NotFound \<and> keyname e = k \<and> message e = m)
   \<and> (\<exists>e. new_NotAllowed k m = Inr e
        \<and> cls e = NotAllowed \<and> keyname e = k \<and> message e = m)"
  by (simp add: new_DomainException_def new_NotFound_def new_NotAllowed_def)

text \<open>The instances built by \<^verbatim>\<open>test_exception_instantiation\<close>.\<close>

theorem domain_exception_fields_witness:
  "(\<exists>e. new_DomainException ''general-error'' ''A general error occurred'' = Inr e
        \<and> keyname e = ''general-error'' \<and> message e = ''A general error occurred'')
   \<and> (\<exists>e. new_NotFound ''user-not-found'' ''User not found'' = Inr e
        \<and> keyname e = ''user-not-found'' \<and> message e = ''User not found'')"
proof -
  from domain_exception_fields [of "''general-error''" "''A general error occurred''"]
  have first: "\<exists>e. new_DomainException ''general-error'' ''A general error occurred'' = Inr e
        \<and> keyname e = ''general-error'' \<and> message e = ''A general error occurred''"
    by blast
  from domain_exception_fields [of "''user-not-found''" "''User not found''"]
  have second: "\<exists>e. new_NotFound ''user-not-found'' ''User not found'' = Inr e
        \<and> keyname e = ''user-not-found'' \<and> message e = ''User not found''"
    by blast
  from first second show ?thesis by (rule conjI)
qed

text \<open>
  C9. \<^verbatim>\<open>NotFound\<close> and \<^verbatim>\<open>NotAllowed\<close> are subclasses of \<^verbatim>\<open>DomainException\<close>, which is a
  subclass of \<^verbatim>\<open>Exception\<close>; so for every key name \<open>k\<close> and message \<open>m\<close>, a raised
  \<^verbatim>\<open>NotFound(k, m)\<close> or \<^verbatim>\<open>NotAllowed(k, m)\<close> is caught by a handler for
  \<^verbatim>\<open>DomainException\<close>.
\<close>

theorem domain_exceptions_caught:
  "issubclass NotFound DomainException
   \<and> issubclass NotAllowed DomainException
   \<and> issubclass DomainException Exception
   \<and> (\<exists>e. new_NotFound k m = Inr e \<and> isinstance e DomainException
          \<and> handle DomainException (raise e) = Caught e)
   \<and> (\<exists>e. new_NotAllowed k m = Inr e \<and> isinstance e DomainException
          \<and> handle DomainException (raise e) = Caught e)"
  by (simp add: new_NotFound_def new_NotAllowed_def handle_raise_instance
        isinstance_def issubclass_def)

text \<open>
  C10. The family of \<^verbatim>\<open>ExternalInteractionError\<close> is a tree under single inheritance:
  every class of the family descends from \<^verbatim>\<open>ExternalInteractionError\<close>, which has no
  base in the family, and every other class has its one base in the family. A raised
  exception is caught by a handler for any ancestor of its class; so a raised
  \<^verbatim>\<open>WarningExtException\<close> is caught as \<^verbatim>\<open>ExternalInteractionError\<close>, a
  \<^verbatim>\<open>ConnectionExtException\<close> as \<^verbatim>\<open>OperationalErrorExtException\<close>, an
  \<^verbatim>\<open>ExternalDependencyErrorExtException\<close> as \<^verbatim>\<open>ErrorExtException\<close> and a
  \<^verbatim>\<open>ConfigurationExtException\<close> as \<^verbatim>\<open>InterfaceExtException\<close>.
\<close>

theorem ext_exceptions_caught:
  "(\<forall>c \<in> set ext_family. issubclass c ExternalInteractionError)
   \<and> (\<forall>c \<in> set ext_family.
         (c = ExternalInteractionError \<and> base c = None) \<or> (\<exists>b \<in> set ext_family. base c = Some b))
   \<and> (\<forall>d. issubclass (cls e) d \<longrightarrow> handle d (raise e) = Caught e)
   \<and> (\<exists>w. new_ext_exception WarningExtException m = Inr w
          \<and> handle ExternalInteractionError (raise w) = Caught w)
   \<and> (\<exists>w. new_ext_exception ConnectionExtException m = Inr w
          \<and> handle OperationalErrorExtException (raise w) = Caught w)
   \<and> (\<exists>w. new_ext_exception ExternalDependencyErrorExtException m = Inr w
          \<and> handle ErrorExtException (raise w) = Caught w)
   \<and> (\<exists>w. new_ext_exception ConfigurationExtException m = Inr w
          \<and> handle InterfaceExtException (raise w) = Caught w)"
proof (intro conjI)
  show "\<forall>c \<in> set ext_family. issubclass c ExternalInteractionError"
    by (simp add: ext_family_def issubclass_def)
  show "\<forall>c \<in> set ext_family.
          (c = ExternalInteractionError \<and> base c = None) \<or> (\<exists>b \<in> set ext_family. base c = Some b)"
    by (simp add: ext_family_def)
  show "\<forall>d. issubclass (cls e) d \<longrightarrow> handle d (raise e) = Caught e"
    by (simp add: handle_raise_instance isinstance_def)
  show "\<exists>w. new_ext_exception WarningExtException m = Inr w
          \<and> handle ExternalInteractionError (raise w) = Caught w"
    by (simp add: new_ext_exception_def handle_raise_instance isinstance_def issubclass_def)
  show "\<exists>w. new_ext_exception ConnectionExtException m = Inr w
          \<and> handle OperationalErrorExtException (raise w) = Caught w"
    by (simp add: new_ext_exception_def handle_raise_instance isinstance_def issubclass_def)
  show "\<exists>w. new_ext_exception ExternalDependencyErrorExtException m = Inr w
          \<and> handle ErrorExtException (raise w) = Caught w"
    by (simp add: new_ext_exception_def handle_raise_instance isinstance_def issubclass_def)
  show "\<exists>w. new_ext_exception ConfigurationExtException m = Inr w
          \<and> handle InterfaceExtException (raise w) = Caught w"
    by (simp add: new_ext_exception_def handle_raise_instance isinstance_def issubclass_def)
qed

theorem ext_exceptions_caught_witness:
  "TimeoutExtException \<in> set ext_family
   \<and> issubclass TimeoutExtException ExternalInteractionError
   \<and> issubclass (cls \<lparr>cls = TimeoutExtException, message = ''timed out''\<rparr>) ErrorExtException
   \<and> handle ErrorExtException (raise \<lparr>cls = TimeoutExtException, message = ''timed out''\<rparr>)
       = (Caught \<lparr>cls = TimeoutExtException, message = ''timed out''\<rparr> :: (exception_obj, unit) outcome)"
proof -
  have member: "TimeoutExtException \<in> set ext_family"
    by (simp add: ext_family_def)
  have ancestor:
    "issubclass (cls \<lparr>cls = TimeoutExtException, message = ''timed out''\<rparr>) ErrorExtException"
    by (simp add: issubclass_def)
  note all = ext_exceptions_caught
    [where e = "\<lparr>cls = TimeoutExtException, message = ''timed out''\<rparr>" and 'a = unit]
  from all member have rooted: "issubclass TimeoutExtException ExternalInteractionError"
    by blast
  from all ancestor have caught:
    "handle ErrorExtException (raise \<lparr>cls = TimeoutExtException, message = ''timed out''\<rparr>)
       = (Caught \<lparr>cls = TimeoutExtException, message = ''timed out''\<rparr> :: (exception_obj, unit) outcome)"
    by blast
  from member rooted ancestor caught show ?thesis by simp
qed

end
